theory Spec2Isabelle
  imports Complex_Main "HOL-Library.List_Lexorder" "HOL-Library.Char_ord"
begin

section \<open>Python strings\<close>

text \<open>
  The analyzer (\<^verbatim>\<open>enhanced_analyzer.py\<close>, class \<^verbatim>\<open>EnhancedResumeAnalyzer\<close>) works on
  Python \<^verbatim>\<open>str\<close> values: sequences of Unicode code points, and \<^verbatim>\<open>len\<close> counts code
  points. A text is therefore a list of code points. The literals of the program (skill
  names, section headers, labels) are ASCII and are written as HOL strings; \<open>cps\<close> gives
  their code points.
\<close>

type_synonym cp = nat
type_synonym pystr = "cp list"

definition cps :: "string \<Rightarrow> pystr" where
  "cps s = map (of_char :: char \<Rightarrow> nat) s"

text \<open>
  CPython classifies the ASCII code points by fixed tables, written out below. Beyond
  U+007F it consults its Unicode database, which is not part of this repository: the
  database is a parameter of every function that depends on it, and every theorem holds
  for every database.
  \<^item> \<open>u_isspace\<close>: \<^verbatim>\<open>str.isspace\<close> on one code point (used by \<^verbatim>\<open>strip\<close>, \<^verbatim>\<open>split\<close>, \<^verbatim>\<open>\s\<close>);
  \<^item> \<open>u_isalnum\<close>: \<^verbatim>\<open>str.isalnum\<close> on one code point (used by \<^verbatim>\<open>\b\<close>);
  \<^item> \<open>u_decimal\<close>: the value of a decimal digit (used by \<^verbatim>\<open>\d\<close> and \<^verbatim>\<open>int\<close>);
  \<^item> \<open>u_lower\<close>: \<^verbatim>\<open>str.lower\<close> on a string that is not pure ASCII.
\<close>

record ucd =
  u_isspace :: "cp \<Rightarrow> bool"
  u_isalnum :: "cp \<Rightarrow> bool"
  u_decimal :: "cp \<Rightarrow> nat option"
  u_lower :: "pystr \<Rightarrow> pystr"

definition is_ascii :: "cp \<Rightarrow> bool" where
  "is_ascii c = (c < 128)"

definition is_space :: "ucd \<Rightarrow> cp \<Rightarrow> bool" where
  "is_space U c =
     (if is_ascii c then (9 \<le> c \<and> c \<le> 13) \<or> (28 \<le> c \<and> c \<le> 32) else u_isspace U c)"

definition is_word :: "ucd \<Rightarrow> cp \<Rightarrow> bool" where
  "is_word U c =
     (if is_ascii c
      then (48 \<le> c \<and> c \<le> 57) \<or> (65 \<le> c \<and> c \<le> 90) \<or> c = 95 \<or> (97 \<le> c \<and> c \<le> 122)
      else u_isalnum U c)"

definition decimal :: "ucd \<Rightarrow> cp \<Rightarrow> nat option" where
  "decimal U c =
     (if is_ascii c then (if 48 \<le> c \<and> c \<le> 57 then Some (c - 48) else None)
      else u_decimal U c)"

definition ascii_lower :: "cp \<Rightarrow> cp" where
  "ascii_lower c = (if 65 \<le> c \<and> c \<le> 90 then c + 32 else c)"

definition py_lower :: "ucd \<Rightarrow> pystr \<Rightarrow> pystr" where
  "py_lower U s = (if list_all is_ascii s then map ascii_lower s else u_lower U s)"

definition py_strip :: "ucd \<Rightarrow> pystr \<Rightarrow> pystr" where
  "py_strip U s = rev (dropWhile (is_space U) (rev (dropWhile (is_space U) s)))"

text \<open>
  \<^verbatim>\<open>text.split()\<close>: the maximal runs of non-whitespace. The second argument is the
  word being read, reversed.
\<close>

fun split_from :: "ucd \<Rightarrow> pystr \<Rightarrow> pystr \<Rightarrow> pystr list" where
  "split_from U w [] = (if w = [] then [] else [rev w])"
| "split_from U w (c # s) =
     (if is_space U c then (if w = [] then split_from U [] s else rev w # split_from U [] s)
      else split_from U (c # w) s)"

definition py_split :: "ucd \<Rightarrow> pystr \<Rightarrow> pystr list" where
  "py_split U s = split_from U [] s"

text \<open>\<^verbatim>\<open>sub in s\<close>: \<open>sub\<close> occurs in \<open>s\<close> as a contiguous run.\<close>

definition startswith :: "pystr \<Rightarrow> pystr \<Rightarrow> bool" where
  "startswith s sub = (take (length sub) s = sub)"

fun py_in :: "pystr \<Rightarrow> pystr \<Rightarrow> bool" where
  "py_in sub [] = startswith [] sub"
| "py_in sub (c # s) = (startswith (c # s) sub \<or> py_in sub s)"

section \<open>Skill catalog\<close>

text \<open>
  \<^verbatim>\<open>_initialize_skill_databases\<close>: the skill lists, in the order of the source. The
  list of soft skills is \<^verbatim>\<open>self.soft_skills\<close>; it is named \<open>soft_skills_catalog\<close> here,
  since \<open>soft_skills\<close> is also a key of the analysis dictionaries.
\<close>

definition programming_languages :: "string list" where
  "programming_languages =
    [''python'', ''java'', ''javascript'', ''typescript'', ''c++'', ''c#'', ''php'',
     ''ruby'', ''go'', ''rust'', ''swift'', ''kotlin'', ''scala'', ''r'', ''matlab'',
     ''perl'', ''shell'', ''bash'', ''powershell'', ''sql'', ''html'', ''css'', ''sass'',
     ''less'', ''dart'', ''elixir'', ''haskell'', ''clojure'', ''f#'', ''vb.net'',
     ''cobol'', ''fortran'', ''assembly'', ''lua'', ''groovy'']"

definition frameworks_libraries :: "string list" where
  "frameworks_libraries =
    [''react'', ''angular'', ''vue'', ''svelte'', ''ember'', ''backbone'', ''jquery'',
     ''nodejs'', ''express'', ''koa'', ''fastify'', ''django'', ''flask'', ''fastapi'',
     ''pyramid'', ''tornado'', ''spring'', ''spring boot'', ''hibernate'', ''struts'',
     ''laravel'', ''symfony'', ''codeigniter'', ''rails'', ''sinatra'', ''asp.net'',
     ''mvc'', ''blazor'', ''xamarin'', ''unity'', ''unreal'', ''tensorflow'', ''pytorch'',
     ''keras'', ''scikit-learn'', ''pandas'', ''numpy'', ''matplotlib'', ''seaborn'',
     ''plotly'', ''opencv'', ''nltk'', ''spacy'', ''hugging face'', ''transformers'']"

definition databases :: "string list" where
  "databases =
    [''mysql'', ''postgresql'', ''sqlite'', ''oracle'', ''sql server'', ''mongodb'',
     ''cassandra'', ''redis'', ''elasticsearch'', ''solr'', ''neo4j'', ''dynamodb'',
     ''couchdb'', ''influxdb'', ''firebase'', ''mariadb'', ''cockroachdb'',
     ''amazon rds'', ''azure sql'', ''google cloud sql'']"

definition cloud_devops :: "string list" where
  "cloud_devops =
    [''aws'', ''azure'', ''gcp'', ''google cloud platform'', ''digital ocean'',
     ''linode'', ''docker'', ''kubernetes'', ''openshift'', ''helm'', ''istio'',
     ''jenkins'', ''github actions'', ''gitlab ci'', ''circle ci'', ''travis ci'',
     ''azure devops'', ''terraform'', ''ansible'', ''chef'', ''puppet'', ''vagrant'',
     ''packer'', ''consul'', ''vault'', ''nomad'', ''prometheus'', ''grafana'',
     ''elk stack'', ''datadog'', ''new relic'', ''splunk'', ''nagios'', ''zabbix'']"

definition tools_technologies :: "string list" where
  "tools_technologies =
    [''git'', ''github'', ''gitlab'', ''bitbucket'', ''svn'', ''mercurial'', ''jira'',
     ''confluence'', ''slack'', ''microsoft teams'', ''zoom'', ''figma'', ''sketch'',
     ''adobe xd'', ''photoshop'', ''illustrator'', ''after effects'', ''premiere pro'',
     ''blender'', ''autocad'', ''solidworks'', ''excel'', ''powerbi'', ''tableau'',
     ''qlik'', ''looker'', ''apache spark'', ''hadoop'', ''kafka'', ''rabbitmq'',
     ''celery'', ''airflow'', ''luigi'', ''prefect'', ''dbt'']"

definition soft_skills_catalog :: "string list" where
  "soft_skills_catalog =
    [''leadership'', ''communication'', ''teamwork'', ''collaboration'',
     ''problem solving'', ''analytical thinking'', ''critical thinking'',
     ''creative thinking'', ''innovation'', ''adaptability'', ''flexibility'',
     ''resilience'', ''time management'', ''organization'', ''project management'',
     ''stakeholder management'', ''client relations'', ''customer service'',
     ''presentation skills'', ''public speaking'', ''negotiation'',
     ''conflict resolution'', ''mentoring'', ''coaching'', ''training'',
     ''strategic planning'', ''decision making'', ''attention to detail'',
     ''quality assurance'', ''continuous improvement'', ''agile mindset'',
     ''emotional intelligence'', ''cultural awareness'', ''remote work'',
     ''cross-functional collaboration'']"

definition methodologies :: "string list" where
  "methodologies =
    [''agile'', ''scrum'', ''kanban'', ''lean'', ''six sigma'', ''devops'', ''ci/cd'',
     ''tdd'', ''bdd'', ''pair programming'', ''code review'', ''microservices'',
     ''monolith'', ''serverless'', ''event-driven architecture'',
     ''domain-driven design'', ''clean architecture'', ''solid principles'',
     ''design patterns'', ''rest api'', ''graphql'', ''grpc'', ''oauth'', ''jwt'',
     ''saml'', ''ldap'', ''sso'', ''encryption'', ''ssl/tls'', ''penetration testing'',
     ''vulnerability assessment'', ''compliance'', ''gdpr'', ''hipaa'', ''sox'',
     ''pci dss'']"

text \<open>\<^verbatim>\<open>self.industry_skills\<close>: a dictionary, iterated in insertion order.\<close>

definition industry_skills :: "(string \<times> string list) list" where
  "industry_skills =
    [(''fintech'',
      [''blockchain'', ''cryptocurrency'', ''defi'', ''trading algorithms'',
       ''risk management'', ''compliance'', ''kyc'', ''aml'']),
     (''healthcare'',
      [''hipaa'', ''hl7'', ''fhir'', ''medical devices'', ''clinical trials'',
       ''telemedicine'', ''ehr'', ''emr'']),
     (''ecommerce'',
      [''payment processing'', ''inventory management'', ''supply chain'', ''logistics'',
       ''crm'', ''shopify'', ''magento'', ''woocommerce'']),
     (''gaming'',
      [''game engines'', ''unity'', ''unreal engine'', ''c#'', ''c++'',
       ''graphics programming'', ''shader programming'', ''multiplayer networking'']),
     (''iot'',
      [''embedded systems'', ''sensors'', ''actuators'', ''edge computing'', ''mqtt'',
       ''lorawan'', ''zigbee'', ''bluetooth'']),
     (''ai_ml'',
      [''machine learning'', ''deep learning'', ''neural networks'', ''computer vision'',
       ''nlp'', ''reinforcement learning'', ''mlops'', ''model deployment''])]"

text \<open>
  \<^verbatim>\<open>list(dict.fromkeys(xs))\<close>: duplicates removed, the first occurrence of each element
  kept, the order otherwise unchanged.
\<close>

fun fromkeys :: "'a list \<Rightarrow> 'a list" where
  "fromkeys [] = []"
| "fromkeys (x # xs) = x # fromkeys (filter (\<lambda>y. y \<noteq> x) xs)"

definition all_technical_skills :: "string list" where
  "all_technical_skills =
     fromkeys
       ((programming_languages @ frameworks_libraries @ databases @ cloud_devops @
         tools_technologies @ methodologies) @
        concat (map snd industry_skills))"

section \<open>Skill detection\<close>

text \<open>
  \<^verbatim>\<open>_analyze_skills\<close> searches the text for the pattern
  \<^verbatim>\<open>r'\b' + re.escape(skill.lower()) + r'\b'\<close>: the literal between two word boundaries.
  \<^verbatim>\<open>\b\<close> holds at a position where exactly one of the code point before it and the
  code point at it is a word character (a letter, a digit or the underscore); the start
  and the end of the text count as non-word.
\<close>

definition is_word_opt :: "ucd \<Rightarrow> cp option \<Rightarrow> bool" where
  "is_word_opt U c = (case c of None \<Rightarrow> False | Some x \<Rightarrow> is_word U x)"

definition first_cp :: "pystr \<Rightarrow> cp option" where
  "first_cp s = (case s of [] \<Rightarrow> None | c # _ \<Rightarrow> Some c)"

definition at_boundary :: "ucd \<Rightarrow> cp option \<Rightarrow> pystr \<Rightarrow> bool" where
  "at_boundary U prev rest = (is_word_opt U prev \<noteq> is_word_opt U (first_cp rest))"

text \<open>
  The pattern matches at the head of \<open>s\<close>, where \<open>prev\<close> is the code point before \<open>s\<close>
  in the text (\<open>None\<close> at its start).
\<close>

definition bounded_match_at :: "ucd \<Rightarrow> cp option \<Rightarrow> pystr \<Rightarrow> pystr \<Rightarrow> bool" where
  "bounded_match_at U prev lit s =
     (at_boundary U prev s \<and> startswith s lit \<and>
      at_boundary U (if lit = [] then prev else Some (last lit)) (drop (length lit) s))"

text \<open>\<^verbatim>\<open>re.search\<close> tries every position from left to right.\<close>

fun bounded_search_from :: "ucd \<Rightarrow> cp option \<Rightarrow> pystr \<Rightarrow> pystr \<Rightarrow> bool" where
  "bounded_search_from U prev lit [] = bounded_match_at U prev lit []"
| "bounded_search_from U prev lit (c # s) =
     (bounded_match_at U prev lit (c # s) \<or> bounded_search_from U (Some c) lit s)"

definition bounded_search :: "ucd \<Rightarrow> pystr \<Rightarrow> pystr \<Rightarrow> bool" where
  "bounded_search U lit text = bounded_search_from U None lit text"

text \<open>The dictionary \<^verbatim>\<open>_analyze_skills\<close> returns.\<close>

record skills =
  technical_skills :: "string list"
  soft_skills :: "string list"

definition skill_found :: "ucd \<Rightarrow> pystr \<Rightarrow> string \<Rightarrow> bool" where
  "skill_found U text skill = bounded_search U (py_lower U (cps skill)) text"

definition analyze_skills :: "ucd \<Rightarrow> pystr \<Rightarrow> skills" where
  "analyze_skills U text =
     \<lparr> technical_skills = filter (skill_found U text) all_technical_skills,
       soft_skills = filter (skill_found U text) soft_skills_catalog \<rparr>"

section \<open>Experience extraction\<close>

text \<open>
  The experience patterns are regular expressions of a small fragment: literals,
  classes of code points, sequence, alternation, the greedy \<^verbatim>\<open>?\<close>, the greedy \<^verbatim>\<open>*\<close> and
  \<^verbatim>\<open>+\<close> on one class, and capturing groups. A class is a list of items.
\<close>

datatype item = Chr cp | Digit | Space

datatype regex =
    Eps
  | One "item list"
  | Str pystr
  | Seq regex regex
  | Alt regex regex
  | Opt regex
  | Star "item list"
  | Plus "item list"
  | Group regex

fun item_ok :: "ucd \<Rightarrow> item \<Rightarrow> cp \<Rightarrow> bool" where
  "item_ok U (Chr x) c = (c = x)"
| "item_ok U Digit c = (decimal U c \<noteq> None)"
| "item_ok U Space c = is_space U c"

definition in_class :: "ucd \<Rightarrow> item list \<Rightarrow> cp \<Rightarrow> bool" where
  "in_class U cls c = list_ex (\<lambda>i. item_ok U i c) cls"

text \<open>
  \<open>rmatch U r s\<close> lists the ways \<open>r\<close> matches at the head of \<open>s\<close>, in the order in which
  the backtracking matcher of \<^verbatim>\<open>re\<close> tries them: each is the texts of the groups and the
  rest of \<open>s\<close> after the match. The match \<^verbatim>\<open>re\<close> reports at a position is the first one.
\<close>

fun rmatch :: "ucd \<Rightarrow> regex \<Rightarrow> pystr \<Rightarrow> (pystr list \<times> pystr) list" where
  "rmatch U Eps s = [([], s)]"
| "rmatch U (One cls) s =
     (case s of [] \<Rightarrow> [] | c # t \<Rightarrow> if in_class U cls c then [([], t)] else [])"
| "rmatch U (Str lit) s = (if startswith s lit then [([], drop (length lit) s)] else [])"
| "rmatch U (Seq r1 r2) s =
     concat (map (\<lambda>(g1, s1). map (\<lambda>(g2, s2). (g1 @ g2, s2)) (rmatch U r2 s1)) (rmatch U r1 s))"
| "rmatch U (Alt r1 r2) s = rmatch U r1 s @ rmatch U r2 s"
| "rmatch U (Opt r) s = rmatch U r s @ [([], s)]"
| "rmatch U (Star cls) s =
     map (\<lambda>k. ([], drop k s)) (rev [0 ..< Suc (length (takeWhile (in_class U cls) s))])"
| "rmatch U (Plus cls) s =
     map (\<lambda>k. ([], drop k s)) (rev [1 ..< Suc (length (takeWhile (in_class U cls) s))])"
| "rmatch U (Group r) s =
     map (\<lambda>(g, s'). (take (length s - length s') s # g, s')) (rmatch U r s)"

text \<open>
  \<^verbatim>\<open>re.findall\<close>: the matches found from left to right, each search starting where the
  match before it ended; per match, the texts of its groups. After a match that consumed
  nothing the search moves one code point on; no experience pattern matches the empty
  string (lemma \<open>findall_patterns_consume\<close>).
\<close>

function findall :: "ucd \<Rightarrow> regex \<Rightarrow> pystr \<Rightarrow> pystr list list" where
  "findall U r [] = (case rmatch U r [] of [] \<Rightarrow> [] | (g, s') # _ \<Rightarrow> [g])"
| "findall U r (c # t) =
     (case rmatch U r (c # t) of
        [] \<Rightarrow> findall U r t
      | (g, s') # _ \<Rightarrow> g # findall U r (if length s' < length (c # t) then s' else t))"
  by pat_completeness auto
termination
  by (relation "measure (\<lambda>(U, r, s). length s)") (auto split: if_splits)

text \<open>The least number of code points a match of \<open>r\<close> consumes.\<close>

fun min_width :: "regex \<Rightarrow> nat" where
  "min_width Eps = 0"
| "min_width (One cls) = 1"
| "min_width (Str lit) = length lit"
| "min_width (Seq r1 r2) = min_width r1 + min_width r2"
| "min_width (Alt r1 r2) = min (min_width r1) (min_width r2)"
| "min_width (Opt r) = 0"
| "min_width (Star cls) = 0"
| "min_width (Plus cls) = 1"
| "min_width (Group r) = min_width r"

definition seq :: "regex list \<Rightarrow> regex" where
  "seq rs = foldr Seq rs Eps"

definition chars :: "string \<Rightarrow> regex" where
  "chars s = Str (cps s)"

text \<open>\<^verbatim>\<open>(\d+)\<close>, \<^verbatim>\<open>[\+]?\<close>, \<^verbatim>\<open>\s*\<close>, \<^verbatim>\<open>(?:years?|yrs?)\<close> and \<^verbatim>\<open>(?:experience|exp)\<close>.\<close>

definition digits :: regex where
  "digits = Group (Plus [Digit])"

definition opt_plus :: regex where
  "opt_plus = Opt (One [Chr 43])"

definition spaces :: regex where
  "spaces = Star [Space]"

definition years_re :: regex where
  "years_re =
     Alt (Seq (chars ''year'') (Opt (chars ''s''))) (Seq (chars ''yr'') (Opt (chars ''s'')))"

definition experience_re :: regex where
  "experience_re = Alt (chars ''experience'') (chars ''exp'')"

text \<open>
  \<^verbatim>\<open>self.experience_patterns\<close>:
  \<^verbatim>\<open>(\d+)[\+]?\s*(?:years?|yrs?)\s*(?:of\s*)?(?:experience|exp)\<close>,
  \<^verbatim>\<open>(\d+)[\+]?\s*(?:year|yr)\s*(?:experience|exp)\<close>,
  \<^verbatim>\<open>experience[:\s]*(\d+)[\+]?\s*(?:years?|yrs?)\<close>,
  \<^verbatim>\<open>(\d+)[\+]?\s*(?:years?|yrs?)\s*(?:in|with|of)\<close>,
  \<^verbatim>\<open>over\s*(\d+)\s*(?:years?|yrs?)\<close>,
  \<^verbatim>\<open>more than\s*(\d+)\s*(?:years?|yrs?)\<close>.
\<close>

definition experience_patterns :: "regex list" where
  "experience_patterns =
     [seq [digits, opt_plus, spaces, years_re, spaces, Opt (Seq (chars ''of'') spaces),
           experience_re],
      seq [digits, opt_plus, spaces, Alt (chars ''year'') (chars ''yr''), spaces,
           experience_re],
      seq [chars ''experience'', Star [Chr 58, Space], digits, opt_plus, spaces, years_re],
      seq [digits, opt_plus, spaces, years_re, spaces,
           Alt (chars ''in'') (Alt (chars ''with'') (chars ''of''))],
      seq [chars ''over'', spaces, digits, spaces, years_re],
      seq [chars ''more than'', spaces, digits, spaces, years_re]]"

text \<open>
  The patterns local to \<^verbatim>\<open>_extract_required_experience\<close>:
  \<^verbatim>\<open>(\d+)[\+]?\s*(?:years?|yrs?)\s*(?:of\s*)?(?:experience|exp)\<close>,
  \<^verbatim>\<open>minimum\s*(\d+)\s*(?:years?|yrs?)\<close>,
  \<^verbatim>\<open>at least\s*(\d+)\s*(?:years?|yrs?)\<close>,
  \<^verbatim>\<open>(\d+)[\+]?\s*(?:to|\-)\s*(\d+)\s*(?:years?|yrs?)\<close>.
\<close>

definition required_experience_patterns :: "regex list" where
  "required_experience_patterns =
     [seq [digits, opt_plus, spaces, years_re, spaces, Opt (Seq (chars ''of'') spaces),
           experience_re],
      seq [chars ''minimum'', spaces, digits, spaces, years_re],
      seq [chars ''at least'', spaces, digits, spaces, years_re],
      seq [digits, opt_plus, spaces, Alt (chars ''to'') (chars ''-''), spaces, digits, spaces,
           years_re]]"

text \<open>
  \<^verbatim>\<open>match.isdigit()\<close> and \<^verbatim>\<open>int(match)\<close> on a captured text. A group \<^verbatim>\<open>(\d+)\<close> holds
  decimal digits only; on these \<^verbatim>\<open>isdigit\<close> is true and \<^verbatim>\<open>int\<close> reads the decimal
  number, of any length (the limit a Python interpreter may put on the number of digits
  \<^verbatim>\<open>int\<close> converts is not modelled).
\<close>

definition str_isdigit :: "ucd \<Rightarrow> pystr \<Rightarrow> bool" where
  "str_isdigit U s = (s \<noteq> [] \<and> list_all (\<lambda>c. decimal U c \<noteq> None) s)"

definition py_int :: "ucd \<Rightarrow> pystr \<Rightarrow> int" where
  "py_int U s = foldl (\<lambda>a c. 10 * a + int (case decimal U c of None \<Rightarrow> 0 | Some d \<Rightarrow> d)) 0 s"

text \<open>
  The list \<^verbatim>\<open>years\<close> both extractors build: for every pattern in turn, for every match
  from left to right, the integers of its groups. A pattern with one group yields
  strings and one with two groups yields tuples; the source reads all members in both
  cases.
\<close>

definition captured_years :: "ucd \<Rightarrow> regex list \<Rightarrow> pystr \<Rightarrow> int list" where
  "captured_years U patterns text =
     concat (map (\<lambda>pattern.
        concat (map (\<lambda>groups. map (py_int U) (filter (str_isdigit U) groups))
                    (findall U pattern text)))
       patterns)"

text \<open>
  \<^verbatim>\<open>max(years)\<close> and \<^verbatim>\<open>min(years)\<close>: a scan from the left that keeps the extreme value.
  Both are called on a list that is not empty only.
\<close>

fun py_max :: "int list \<Rightarrow> int" where
  "py_max [] = 0"
| "py_max (y # ys) = fold max ys y"

fun py_min :: "int list \<Rightarrow> int" where
  "py_min [] = 0"
| "py_min (y # ys) = fold min ys y"

text \<open>\<^verbatim>\<open>_categorize_experience_level\<close>\<close>

definition categorize_experience_level :: "int \<Rightarrow> string" where
  "categorize_experience_level years =
     (if years \<ge> 8 then ''senior''
      else if years \<ge> 3 then ''mid-level''
      else if years \<ge> 1 then ''junior''
      else ''entry-level'')"

text \<open>\<^verbatim>\<open>_analyze_experience\<close>: the years and the level.\<close>

definition analyze_experience :: "ucd \<Rightarrow> pystr \<Rightarrow> int \<times> string" where
  "analyze_experience U text =
     (let years = captured_years U experience_patterns text;
          experience_years = (if years \<noteq> [] then py_max years else 0)
      in (experience_years, categorize_experience_level experience_years))"

text \<open>\<^verbatim>\<open>_extract_required_experience\<close>\<close>

definition extract_required_experience :: "ucd \<Rightarrow> pystr \<Rightarrow> int" where
  "extract_required_experience U text =
     (let years = captured_years U required_experience_patterns text
      in if years \<noteq> [] then py_min years else 0)"

section \<open>ATS compatibility\<close>

text \<open>
  \<^verbatim>\<open>_calculate_ats_compatibility\<close>. \<^verbatim>\<open>re.search(r'[^\x00-\x7F]', text)\<close> finds a code point
  above U+007F.
\<close>

definition standard_sections :: "string list" where
  "standard_sections = [''experience'', ''education'', ''skills'', ''summary'']"

definition has_non_ascii :: "pystr \<Rightarrow> bool" where
  "has_non_ascii text = list_ex (\<lambda>c. \<not> is_ascii c) text"

definition found_sections :: "ucd \<Rightarrow> pystr \<Rightarrow> nat" where
  "found_sections U text =
     length (filter (\<lambda>section. py_in (cps section) (py_lower U text)) standard_sections)"

definition section_score :: "ucd \<Rightarrow> pystr \<Rightarrow> rat" where
  "section_score U text =
     (of_nat (found_sections U text) / of_nat (length standard_sections)) * 20"

definition calculate_ats_compatibility :: "ucd \<Rightarrow> pystr \<Rightarrow> rat" where
  "calculate_ats_compatibility U text =
     (let score = 100;
          score = (if has_non_ascii text then score - 10 else score);
          word_count = length (py_split U text);
          score = (if word_count < 300 then score - 15
                   else if word_count > 800 then score - 5 else score)
      in max 0 (score - (20 - section_score U text)))"

section \<open>Text analyzer\<close>

text \<open>
  \<^verbatim>\<open>analyze_resume\<close> and \<^verbatim>\<open>analyze_job_description\<close> raise \<^verbatim>\<open>ValueError\<close> on a text that is
  too short (\<open>InputTooShort\<close> in the specification) and return a dictionary otherwise.
  The other exception of the embedding, \<^verbatim>\<open>ZeroDivisionError\<close>, is what a division by
  zero raises in the scorer.
  The records hold the keys that the functions embedded above compute: the skills, the
  experience and the ATS score, with the two size counts. The other keys (education,
  contact data, quality metrics, keywords, industry, company data) come from extractors
  that raise no exception and are not embedded. The \<^verbatim>\<open>print\<close> calls are left out.
\<close>

datatype error = ValueError | ZeroDivisionError

record resume_analysis = skills +
  word_count :: nat
  character_count :: nat
  experience_years :: int
  experience_level :: string
  ats_compatibility_score :: rat

record job_analysis = skills +
  experience_required :: int

definition analyze_resume :: "ucd \<Rightarrow> pystr \<Rightarrow> error + resume_analysis" where
  "analyze_resume U resume_text =
     (if resume_text = [] \<or> length (py_strip U resume_text) < 50 then Inl ValueError
      else
        let resume_lower = py_lower U resume_text;
            skills_analysis = analyze_skills U resume_lower;
            experience_analysis = analyze_experience U resume_lower
        in Inr \<lparr> technical_skills = technical_skills skills_analysis,
                 soft_skills = soft_skills skills_analysis,
                 word_count = length (py_split U resume_text),
                 character_count = length resume_text,
                 experience_years = fst experience_analysis,
                 experience_level = snd experience_analysis,
                 ats_compatibility_score = calculate_ats_compatibility U resume_text \<rparr>)"

definition analyze_job_description :: "ucd \<Rightarrow> pystr \<Rightarrow> error + job_analysis" where
  "analyze_job_description U job_text =
     (if job_text = [] \<or> length (py_strip U job_text) < 50 then Inl ValueError
      else
        let job_lower = py_lower U job_text;
            skills_analysis = analyze_skills U job_lower
        in Inr \<lparr> technical_skills = technical_skills skills_analysis,
                 soft_skills = soft_skills skills_analysis,
                 experience_required = extract_required_experience U job_lower \<rparr>)"

section \<open>Match scorer\<close>

text \<open>
  Scores are Python floats computed from small integers. The embedding computes them in
  exact rational arithmetic; neither the rounding nor the range of binary floating point
  is modelled.
\<close>

text \<open>\<^verbatim>\<open>_calculate_experience_score(resume_exp, required_exp)\<close>\<close>

definition calculate_experience_score :: "int \<Rightarrow> int \<Rightarrow> rat" where
  "calculate_experience_score resume_exp required_exp =
     (if required_exp = 0 then 100
      else if resume_exp \<ge> required_exp then
        (if of_int resume_exp \<le> of_int required_exp * (3 / 2 :: rat) then 100
         else max 70 (100 - (of_int resume_exp - of_int required_exp * (3 / 2)) * 5))
      else (let gap = required_exp - resume_exp in max 0 (100 - of_int gap * 20)))"

text \<open>
  The scorer reads its two dictionaries with \<^verbatim>\<open>.get(key, default)\<close>. The records below
  extend the analyzer's with the remaining keys it and the suggestion engine read; a key
  that is absent from a dictionary is a field that holds the default (the empty list,
  0, \<open>None\<close>). \<open>overall_quality\<close> is \<^verbatim>\<open>quality_metrics['overall_quality']\<close>. The key
  \<^verbatim>\<open>keywords\<close> of the two dictionaries is the field \<open>resume_keywords\<close> of the one and
  \<open>job_keywords\<close> of the other.
\<close>

record resume_facts = resume_analysis +
  education_level :: "string option"
  detected_industry :: "string option"
  resume_keywords :: "string list"
  overall_quality :: rat

record job_facts = job_analysis +
  education_required :: "string option"
  industry :: "string option"
  job_keywords :: "string list"


text \<open>\<^verbatim>\<open>round(x, 1)\<close>: to one decimal, a tie to the even neighbour.\<close>

definition round1 :: "rat \<Rightarrow> rat" where
  "round1 x =
     (let y = x * 10; f = \<lfloor>y\<rfloor>; d = y - of_int f
      in of_int (if d < 1 / 2 then f else if d > 1 / 2 then f + 1
                 else if even f then f else f + 1) / 10)"

text \<open>A value that is \<open>None\<close> or the empty string is false in a condition.\<close>

definition truthy :: "string option \<Rightarrow> bool" where
  "truthy v = (case v of None \<Rightarrow> False | Some s \<Rightarrow> s \<noteq> [])"

text \<open>\<^verbatim>\<open>_calculate_education_score(resume_edu, required_edu)\<close>\<close>

definition education_levels :: "(string \<times> int) list" where
  "education_levels = [(''associates'', 1), (''bachelors'', 2), (''masters'', 3), (''phd'', 4)]"

definition education_rank :: "string option \<Rightarrow> int" where
  "education_rank edu =
     (case edu of None \<Rightarrow> 0
      | Some e \<Rightarrow> (case map_of education_levels e of None \<Rightarrow> 0 | Some n \<Rightarrow> n))"

definition calculate_education_score :: "string option \<Rightarrow> string option \<Rightarrow> rat" where
  "calculate_education_score resume_edu required_edu =
     (if \<not> truthy required_edu then 100
      else
        let resume_level = education_rank resume_edu;
            required_level = education_rank required_edu
        in if resume_level \<ge> required_level then 100
           else if resume_level = required_level - 1 then 75
           else if resume_level = required_level - 2 then 50
           else 25)"

text \<open>\<^verbatim>\<open>_calculate_industry_alignment(resume_industry, job_industry)\<close>\<close>

definition related_industries :: "(string \<times> string list) list" where
  "related_industries =
     [(''technology'', [''fintech'', ''ai_ml'', ''iot'']),
      (''healthcare'', [''fintech'']),
      (''finance'', [''fintech''])]"

definition calculate_industry_alignment :: "string option \<Rightarrow> string option \<Rightarrow> rat" where
  "calculate_industry_alignment resume_industry job_industry =
     (if \<not> truthy job_industry \<or> \<not> truthy resume_industry then 70
      else if resume_industry = job_industry then 100
      else if the job_industry \<in>
              set (case map_of related_industries (the resume_industry) of
                     None \<Rightarrow> [] | Some related \<Rightarrow> related)
           then 80
      else 50)"

text \<open>\<^verbatim>\<open>_categorize_match_strength\<close>\<close>

definition categorize_match_strength :: "rat \<Rightarrow> string" where
  "categorize_match_strength score =
     (if score \<ge> 85 then ''excellent''
      else if score \<ge> 70 then ''good''
      else if score \<ge> 50 then ''fair''
      else ''poor'')"

text \<open>
  \<^verbatim>\<open>_identify_top_skill_gaps\<close>; its second parameter, the job analysis, is not used by
  the source. \<^verbatim>\<open>sorted(xs, key=k, reverse=True)\<close> is stable: CPython
  reverses the list, sorts it by ascending key with a stable sort and reverses the
  result, so that elements of equal key keep the order they had in \<open>xs\<close>.
\<close>

definition skill_importance :: "(string \<times> int) list" where
  "skill_importance =
     [(''python'', 10), (''java'', 10), (''javascript'', 10), (''react'', 9), (''aws'', 9),
      (''sql'', 9), (''git'', 8), (''docker'', 8), (''kubernetes'', 8), (''node.js'', 8),
      (''angular'', 7), (''vue'', 7), (''django'', 7), (''flask'', 7), (''spring'', 7),
      (''html'', 5), (''css'', 5), (''bootstrap'', 4)]"

definition importance :: "string \<Rightarrow> int" where
  "importance skill = (case map_of skill_importance skill of None \<Rightarrow> 3 | Some n \<Rightarrow> n)"

definition sorted_reverse :: "('a \<Rightarrow> int) \<Rightarrow> 'a list \<Rightarrow> 'a list" where
  "sorted_reverse key xs = rev (sort_key key (rev xs))"

definition identify_top_skill_gaps :: "(string set \<Rightarrow> string list) \<Rightarrow> string set \<Rightarrow> string list" where
  "identify_top_skill_gaps set_order missing_skills =
     (if missing_skills = {} then []
      else take 5 (sorted_reverse importance (set_order missing_skills)))"

text \<open>
  The local values of \<^verbatim>\<open>calculate_advanced_match_score\<close>. The three ratios divide by the
  size of a set of the job; \<open>percent_of a b\<close> is \<^verbatim>\<open>a / b * 100\<close>, which raises when \<open>b\<close>
  is 0. \<^verbatim>\<open>education_score\<close>, \<^verbatim>\<open>industry_score\<close> and \<^verbatim>\<open>keyword_score\<close> are named
  \<open>edu_score\<close>, \<open>ind_score\<close> and \<open>kw_score\<close> here, since the result has keys of these
  names.
\<close>

definition percent_of :: "nat \<Rightarrow> nat \<Rightarrow> error + rat" where
  "percent_of a b = (if b = 0 then Inl ZeroDivisionError else Inr (of_nat a / of_nat b * 100))"

definition tech_score :: "resume_facts \<Rightarrow> job_facts \<Rightarrow> error + rat" where
  "tech_score resume job =
     (let resume_tech = set (technical_skills resume);
          job_tech = set (technical_skills job);
          tech_matches = resume_tech \<inter> job_tech
      in if job_tech \<noteq> {} then percent_of (card tech_matches) (card job_tech) else Inr 100)"

definition soft_score :: "resume_facts \<Rightarrow> job_facts \<Rightarrow> error + rat" where
  "soft_score resume job =
     (let resume_soft = set (soft_skills resume);
          job_soft = set (soft_skills job);
          soft_matches = resume_soft \<inter> job_soft
      in if job_soft \<noteq> {} then percent_of (card soft_matches) (card job_soft) else Inr 100)"

definition exp_score :: "resume_facts \<Rightarrow> job_facts \<Rightarrow> rat" where
  "exp_score resume job =
     calculate_experience_score (experience_years resume) (experience_required job)"

definition edu_score :: "resume_facts \<Rightarrow> job_facts \<Rightarrow> rat" where
  "edu_score resume job =
     calculate_education_score (education_level resume) (education_required job)"

definition ind_score :: "resume_facts \<Rightarrow> job_facts \<Rightarrow> rat" where
  "ind_score resume job =
     calculate_industry_alignment (detected_industry resume) (industry job)"

definition kw_score :: "resume_facts \<Rightarrow> job_facts \<Rightarrow> error + rat" where
  "kw_score resume job =
     (let resume_kw = set (resume_keywords resume);
          job_kw = set (job_keywords job);
          keyword_matches = resume_kw \<inter> job_kw
      in if job_kw \<noteq> {} then percent_of (card keyword_matches) (card job_kw) else Inr 0)"

definition ats_factor :: "resume_facts \<Rightarrow> rat" where
  "ats_factor resume = ats_compatibility_score resume / 100"

definition weights :: "(string \<times> rat) list" where
  "weights =
     [(''technical'', 35 / 100), (''soft_skills'', 15 / 100), (''experience'', 20 / 100),
      (''education'', 10 / 100), (''industry'', 10 / 100), (''keywords'', 10 / 100)]"

definition weight :: "string \<Rightarrow> rat" where
  "weight name = the (map_of weights name)"

definition weighted_score :: "rat \<Rightarrow> rat \<Rightarrow> rat \<Rightarrow> rat \<Rightarrow> rat \<Rightarrow> rat \<Rightarrow> rat" where
  "weighted_score tech soft experience education alignment kw =
     tech * weight ''technical'' +
     soft * weight ''soft_skills'' +
     experience * weight ''experience'' +
     education * weight ''education'' +
     alignment * weight ''industry'' +
     kw * weight ''keywords''"

definition final_score :: "rat \<Rightarrow> rat \<Rightarrow> rat" where
  "final_score weighted factor = weighted * (7 / 10 + (3 / 10) * factor)"

text \<open>The dictionary \<^verbatim>\<open>calculate_advanced_match_score\<close> returns.\<close>

record match_result =
  overall_score :: rat
  technical_score :: rat
  soft_skills_score :: rat
  experience_score :: rat
  education_score :: rat
  industry_score :: rat
  keyword_score :: rat
  ats_compatibility_score :: rat
  matched_technical_skills :: "string list"
  missing_technical_skills :: "string list"
  matched_soft_skills :: "string list"
  missing_soft_skills :: "string list"
  matched_keywords :: "string list"
  matched_skills :: "string list"
  experience_gap :: int
  experience_surplus :: int
  match_strength :: string
  top_skill_gaps :: "string list"
  scoring_weights :: "(string \<times> rat) list"

text \<open>
  \<open>match_dict\<close> is the body of \<^verbatim>\<open>calculate_advanced_match_score\<close> once the three ratios
  are computed; the function itself fails where one of them does.
\<close>

definition match_dict ::
  "(string set \<Rightarrow> string list) \<Rightarrow> resume_facts \<Rightarrow> job_facts \<Rightarrow> rat \<Rightarrow> rat \<Rightarrow> rat \<Rightarrow> match_result" where
  "match_dict set_order resume job tech soft kw =
     (let resume_tech = set (technical_skills resume);
          job_tech = set (technical_skills job);
          resume_soft = set (soft_skills resume);
          job_soft = set (soft_skills job);
          tech_matches = resume_tech \<inter> job_tech;
          soft_matches = resume_soft \<inter> job_soft;
          resume_exp = experience_years resume;
          required_exp = experience_required job;
          experience = exp_score resume job;
          education = edu_score resume job;
          alignment = ind_score resume job;
          keyword_matches = set (resume_keywords resume) \<inter> set (job_keywords job);
          weighted = weighted_score tech soft experience education alignment kw;
          final = final_score weighted (ats_factor resume)
      in \<lparr> overall_score = round1 final,
           technical_score = round1 tech,
           soft_skills_score = round1 soft,
           experience_score = round1 experience,
           education_score = round1 education,
           industry_score = round1 alignment,
           keyword_score = round1 kw,
           ats_compatibility_score = round1 (resume_analysis.ats_compatibility_score resume),
           matched_technical_skills = set_order tech_matches,
           missing_technical_skills = set_order (job_tech - resume_tech),
           matched_soft_skills = set_order soft_matches,
           missing_soft_skills = set_order (job_soft - resume_soft),
           matched_keywords = set_order keyword_matches,
           matched_skills = set_order (tech_matches \<union> soft_matches),
           experience_gap = max 0 (required_exp - resume_exp),
           experience_surplus = max 0 (resume_exp - required_exp),
           match_strength = categorize_match_strength final,
           top_skill_gaps = identify_top_skill_gaps set_order (job_tech - resume_tech),
           scoring_weights = weights \<rparr>)"

definition calculate_advanced_match_score ::
  "(string set \<Rightarrow> string list) \<Rightarrow> resume_facts \<Rightarrow> job_facts \<Rightarrow> error + match_result" where
  "calculate_advanced_match_score set_order resume job =
     (case tech_score resume job of
        Inl e \<Rightarrow> Inl e
      | Inr tech \<Rightarrow>
          (case soft_score resume job of
             Inl e \<Rightarrow> Inl e
           | Inr soft \<Rightarrow>
               (case kw_score resume job of
                  Inl e \<Rightarrow> Inl e
                | Inr kw \<Rightarrow> Inr (match_dict set_order resume job tech soft kw))))"

section \<open>Suggestion engine\<close>

text \<open>
  \<^verbatim>\<open>generate_advanced_suggestions\<close> returns a list of messages. A message is modelled by
  the template it is built from, with the values the template interpolates; two
  templates never give the same text.
  \<^item> \<open>Critical\<close>: \<^verbatim>\<open>CRITICAL: Your resume requires major optimization ...\<close>;
  \<^item> \<open>High_priority skills\<close>: \<^verbatim>\<open>HIGH PRIORITY: Add these critical technical skills: ...\<close>;
  \<^item> \<open>Technical_skills skills\<close>: \<^verbatim>\<open>TECHNICAL SKILLS: Include experience with ...\<close>;
  \<^item> \<open>Experience_gap n\<close>: \<^verbatim>\<open>EXPERIENCE GAP: You need n more years of experience ...\<close>;
  \<^item> \<open>Transferable n\<close>: \<^verbatim>\<open>Emphasize transferable skills ... the n-year experience gap.\<close>;
  \<^item> \<open>Overqualified\<close>: \<^verbatim>\<open>You're significantly overqualified ...\<close>;
  \<^item> \<open>Soft_skills skills\<close>: \<^verbatim>\<open>SOFT SKILLS: Demonstrate these competencies: ...\<close>;
  \<^item> \<open>Ats_compatibility\<close>: \<^verbatim>\<open>ATS COMPATIBILITY: Improve formatting ...\<close>;
  \<^item> \<open>Content_quality\<close>: \<^verbatim>\<open>CONTENT QUALITY: Add more quantified achievements ...\<close>;
  \<^item> \<open>Keyword_terms\<close>: \<^verbatim>\<open>KEYWORDS: Incorporate more job-specific terms ...\<close>;
  \<^item> \<open>Industry_focus i\<close>: \<^verbatim>\<open>INDUSTRY FOCUS: Tailor your experience to emphasize i ...\<close>;
  \<^item> \<open>Education e\<close>: \<^verbatim>\<open>EDUCATION: Ensure your e degree is prominently displayed ...\<close>;
  \<^item> \<open>Strategy\<close>, \<open>Optimization\<close>, \<open>Fine_tuning\<close>, \<open>Excellent_match\<close>: the message for the
    match strength poor, fair, good and any other;
  \<^item> \<open>Use_metrics\<close>, \<open>Action_verbs\<close>, \<open>Customize_summary\<close>, \<open>Mobile_friendly\<close>,
    \<open>Consistent_formatting\<close>: the five universal best practices.
\<close>

datatype suggestion =
    Critical
  | High_priority "string list"
  | Technical_skills "string list"
  | Experience_gap int
  | Transferable int
  | Overqualified
  | Soft_skills "string list"
  | Ats_compatibility
  | Content_quality
  | Keyword_terms
  | Industry_focus string
  | Education string
  | Strategy
  | Optimization
  | Fine_tuning
  | Excellent_match
  | Use_metrics
  | Action_verbs
  | Customize_summary
  | Mobile_friendly
  | Consistent_formatting

definition universal_suggestions :: "suggestion list" where
  "universal_suggestions =
     [Use_metrics, Action_verbs, Customize_summary, Mobile_friendly, Consistent_formatting]"

text \<open>
  The source appends to one list, stage after stage. \<open>conditional_suggestions\<close> is the
  list after priorities 1 to 9, each of which appends a message or nothing;
  \<open>strength_suggestion\<close> is the message of priority 10, which is always appended.
\<close>

definition conditional_suggestions ::
  "match_result \<Rightarrow> resume_facts \<Rightarrow> job_facts \<Rightarrow> suggestion list" where
  "conditional_suggestions match_analysis resume job =
     (if overall_score match_analysis < 40 then [Critical] else []) @
     (let missing_tech = missing_technical_skills match_analysis in
      if missing_tech \<noteq> [] then
        (let top_missing = top_skill_gaps match_analysis in
         if length top_missing > 3 then [High_priority (take 3 top_missing)]
         else [Technical_skills top_missing])
      else []) @
     (let exp_gap = experience_gap match_analysis in
      if exp_gap > 2 then [Experience_gap exp_gap]
      else if exp_gap > 0 then [Transferable exp_gap]
      else []) @
     (let exp_surplus = experience_surplus match_analysis in
      if exp_surplus > 5 then [Overqualified] else []) @
     (let missing_soft = missing_soft_skills match_analysis in
      if missing_soft \<noteq> [] \<and> length missing_soft > 2 then [Soft_skills (take 3 missing_soft)]
      else []) @
     (if match_result.ats_compatibility_score match_analysis < 70 then [Ats_compatibility]
      else []) @
     (if overall_quality resume < 70 then [Content_quality] else []) @
     (if keyword_score match_analysis < 60 then [Keyword_terms] else []) @
     (if industry_score match_analysis < 70 then
        (let detected = detected_industry resume; job_industry = industry job in
         if truthy detected \<and> truthy job_industry \<and> detected \<noteq> job_industry
         then [Industry_focus (the job_industry)] else [])
      else []) @
     (if education_score match_analysis < 80 then
        (let required_edu = education_required job in
         if truthy required_edu then [Education (the required_edu)] else [])
      else [])"

definition strength_suggestion :: "match_result \<Rightarrow> suggestion" where
  "strength_suggestion match_analysis =
     (let strength = match_strength match_analysis in
      if strength = ''poor'' then Strategy
      else if strength = ''fair'' then Optimization
      else if strength = ''good'' then Fine_tuning
      else Excellent_match)"

definition generate_advanced_suggestions ::
  "match_result \<Rightarrow> resume_facts \<Rightarrow> job_facts \<Rightarrow> suggestion list" where
  "generate_advanced_suggestions match_analysis resume job =
     take 10
       (conditional_suggestions match_analysis resume job @
        [strength_suggestion match_analysis] @
        take 3 universal_suggestions)"

section \<open>Example data\<close>

text \<open>
  The end-to-end example of the specification: a resume with python and sql, two years
  of experience, a bachelor's degree and an ATS score of 90, against a job that asks for
  python, sql and aws, three years and a bachelor's degree.
\<close>

definition example_resume :: resume_facts where
  "example_resume =
     \<lparr> technical_skills = [''python'', ''sql''], soft_skills = [],
       word_count = 400, character_count = 2500,
       experience_years = 2, experience_level = ''junior'',
       ats_compatibility_score = 90,
       education_level = Some ''bachelors'', detected_industry = None,
       resume_keywords = [], overall_quality = 0 \<rparr>"

definition example_job :: job_facts where
  "example_job =
     \<lparr> technical_skills = [''python'', ''sql'', ''aws''], soft_skills = [],
       experience_required = 3,
       education_required = Some ''bachelors'', industry = None, job_keywords = [] \<rparr>"

text \<open>A Unicode database that classifies nothing beyond ASCII, for texts that are ASCII.\<close>

definition ascii_only :: ucd where
  "ascii_only =
     \<lparr> u_isspace = (\<lambda>c. False), u_isalnum = (\<lambda>c. False), u_decimal = (\<lambda>c. None),
       u_lower = (\<lambda>s. s) \<rparr>"

text \<open>Example texts: a resume of 73 characters between blanks, a text that is too short,
  and a job description of 70 characters.\<close>

definition example_resume_text :: pystr where
  "example_resume_text =
     cps ''  Senior engineer with 6 years of experience in C++ and Python development.  ''"


definition example_job_text :: pystr where
  "example_job_text =
     cps ''We need 3 to 5 years of experience in backend engineering with Python.''"

section \<open>The specification's reading of skill detection\<close>

text \<open>
  The specification detects a skill that occurs in the text as a standalone whole word:
  an occurrence of the skill with no word character directly before it and none directly
  after it.
\<close>

definition standalone :: "ucd \<Rightarrow> pystr \<Rightarrow> pystr \<Rightarrow> bool" where
  "standalone U skill text =
     (\<exists>before after. text = before @ skill @ after \<and>
        (before = [] \<or> \<not> is_word U (last before)) \<and>
        (after = [] \<or> \<not> is_word U (hd after)))"

text \<open>
  A skill name that begins and ends with a word character and is written in lower-case
  ASCII: all skills of the catalog but \<^verbatim>\<open>c++\<close>, \<^verbatim>\<open>c#\<close> and \<^verbatim>\<open>f#\<close> are such names
  (lemmas \<open>raw_word_ended\<close> and \<open>soft_word_ended\<close>).
\<close>

definition word_ended :: "string \<Rightarrow> bool" where
  "word_ended skill =
     (let s = cps skill in
      s \<noteq> [] \<and> is_word ascii_only (hd s) \<and> is_word ascii_only (last s) \<and>
      list_all is_ascii s \<and> map ascii_lower s = s)"

section \<open>The specification's reading of the skill gaps\<close>




section \<open>Properties\<close>

subsection \<open>Experience score\<close>



subsection \<open>The scorer returns\<close>

lemma tech_score_value:
  "tech_score r j =
     Inr (if set (technical_skills j) = {} then 100
          else of_nat (card (set (technical_skills r) \<inter> set (technical_skills j))) /
               of_nat (card (set (technical_skills j))) * 100)"
  by (simp add: tech_score_def Let_def percent_of_def)

lemma soft_score_value:
  "soft_score r j =
     Inr (if set (soft_skills j) = {} then 100
          else of_nat (card (set (soft_skills r) \<inter> set (soft_skills j))) /
               of_nat (card (set (soft_skills j))) * 100)"
  by (simp add: soft_score_def Let_def percent_of_def)

lemma kw_score_value:
  "kw_score r j =
     Inr (if set (job_keywords j) = {} then 0
          else of_nat (card (set (resume_keywords r) \<inter> set (job_keywords j))) /
               of_nat (card (set (job_keywords j))) * 100)"
  by (simp add: kw_score_def Let_def percent_of_def)

lemma score_returns:
  "\<exists>tech soft kw. tech_score r j = Inr tech \<and> soft_score r j = Inr soft \<and> kw_score r j = Inr kw \<and>
     calculate_advanced_match_score so r j = Inr (match_dict so r j tech soft kw)"
  by (simp add: calculate_advanced_match_score_def tech_score_value soft_score_value kw_score_value)

lemma score_Inr_dict:
  assumes "calculate_advanced_match_score so r j = Inr m"
  obtains tech soft kw where "tech_score r j = Inr tech" "soft_score r j = Inr soft"
    "kw_score r j = Inr kw" "m = match_dict so r j tech soft kw"
  using assms score_returns [of r j so] by auto

text \<open>The example of the specification, evaluated.\<close>

lemma ex_tech: "tech_score example_resume example_job = Inr (200 / 3)"
  by (simp add: tech_score_value example_resume_def example_job_def)

lemma ex_soft: "soft_score example_resume example_job = Inr 100"
  by (simp add: soft_score_value example_resume_def example_job_def)

lemma ex_kw: "kw_score example_resume example_job = Inr 0"
  by (simp add: kw_score_value example_resume_def example_job_def)

lemma ex_score: "calculate_advanced_match_score so example_resume example_job =
   Inr (match_dict so example_resume example_job (200 / 3) 100 0)"
  by (simp add: calculate_advanced_match_score_def ex_tech ex_soft ex_kw)




subsection \<open>Skill and keyword scores\<close>



subsection \<open>Overall score\<close>














subsection \<open>Experience gap and surplus\<close>

text \<open>
  C10. In every result of the scorer the experience gap is
  \<open>max 0 (required - resume years)\<close> and the surplus \<open>max 0 (resume years - required)\<close>:
  both are at least 0 and one of them is 0.
\<close>

theorem experience_gap_surplus:
  assumes "calculate_advanced_match_score so r j = Inr m"
  shows "experience_gap m = max 0 (experience_required j - experience_years r) \<and>
         experience_surplus m = max 0 (experience_years r - experience_required j) \<and>
         0 \<le> experience_gap m \<and> 0 \<le> experience_surplus m \<and>
         (experience_gap m = 0 \<or> experience_surplus m = 0)"
proof -
  from assms obtain tech soft kw where m: "m = match_dict so r j tech soft kw"
    by (rule score_Inr_dict)
  have gap: "experience_gap m = max 0 (experience_required j - experience_years r)"
    and surplus: "experience_surplus m = max 0 (experience_years r - experience_required j)"
    by (simp_all add: m match_dict_def Let_def)
  show ?thesis unfolding gap surplus by auto
qed

theorem experience_gap_surplus_witness:
  "calculate_advanced_match_score sorted_list_of_set example_resume example_job =
     Inr (match_dict sorted_list_of_set example_resume example_job (200 / 3) 100 0) \<and>
   experience_gap (match_dict sorted_list_of_set example_resume example_job (200 / 3) 100 0) = 1 \<and>
   experience_surplus (match_dict sorted_list_of_set example_resume example_job (200 / 3) 100 0) = 0"
  using experience_gap_surplus [OF ex_score [of sorted_list_of_set]] ex_score [of sorted_list_of_set]
  by (simp add: example_resume_def example_job_def)

subsection \<open>Top skill gaps\<close>

















subsection \<open>Suggestions\<close>

lemma conditional_suggestions_length:
  "length (conditional_suggestions m r j) \<le> 10"
  by (simp add: conditional_suggestions_def Let_def)

lemma take3_universal:
  "take 3 universal_suggestions = [Use_metrics, Action_verbs, Customize_summary]"
  by (simp add: universal_suggestions_def)

text \<open>
  C8. The suggestion list has at most 10 entries. When fewer than 7 messages of the
  conditional priorities 1 to 9 fired, nothing is cut off and the last 3 entries are the
  first 3 universal best practices, in their order.
\<close>

theorem suggestions_bounded:
  "length (generate_advanced_suggestions m r j) \<le> 10 \<and>
   (length (conditional_suggestions m r j) < 7 \<longrightarrow>
      generate_advanced_suggestions m r j =
        conditional_suggestions m r j @ [strength_suggestion m] @ take 3 universal_suggestions \<and>
      drop (length (generate_advanced_suggestions m r j) - 3)
           (generate_advanced_suggestions m r j) =
        [Use_metrics, Action_verbs, Customize_summary])"
proof -
  have bound: "length (generate_advanced_suggestions m r j) \<le> 10"
    by (simp add: generate_advanced_suggestions_def)
  have last3: "generate_advanced_suggestions m r j =
        conditional_suggestions m r j @ [strength_suggestion m] @ take 3 universal_suggestions \<and>
      drop (length (generate_advanced_suggestions m r j) - 3)
           (generate_advanced_suggestions m r j) =
        [Use_metrics, Action_verbs, Customize_summary]"
    if few: "length (conditional_suggestions m r j) < 7"
  proof -
    let ?c = "conditional_suggestions m r j"
    have whole: "generate_advanced_suggestions m r j =
        ?c @ [strength_suggestion m] @ take 3 universal_suggestions"
      using few by (simp add: generate_advanced_suggestions_def take3_universal)
    have "drop (length (generate_advanced_suggestions m r j) - 3)
           (generate_advanced_suggestions m r j) =
        [Use_metrics, Action_verbs, Customize_summary]"
      unfolding whole take3_universal by simp
    with whole show ?thesis by blast
  qed
  from bound last3 show ?thesis by blast
qed


theorem suggestions_bounded_witness:
  "generate_advanced_suggestions
     (match_dict sorted_list_of_set example_resume example_job (200 / 3) 100 0)
     example_resume example_job =
   [Technical_skills [''aws''], Transferable 1, Content_quality, Keyword_terms, Optimization,
    Use_metrics, Action_verbs, Customize_summary]"
proof -
  have c: "conditional_suggestions
     (match_dict sorted_list_of_set example_resume example_job (200 / 3) 100 0)
     example_resume example_job =
     [Technical_skills [''aws''], Transferable 1, Content_quality, Keyword_terms]"
    by code_simp
  have s: "strength_suggestion
     (match_dict sorted_list_of_set example_resume example_job (200 / 3) 100 0) = Optimization"
    by code_simp
  show ?thesis
    using suggestions_bounded
      [of "match_dict sorted_list_of_set example_resume example_job (200 / 3) 100 0"
          example_resume example_job]
    by (simp add: c s take3_universal)
qed

subsection \<open>Strings\<close>


lemma startswith_iff: "startswith s sub \<longleftrightarrow> (\<exists>post. s = sub @ post)"
proof
  assume "startswith s sub"
  then have "take (length sub) s = sub" by (simp only: startswith_def)
  then have "s = sub @ drop (length sub) s"
    using append_take_drop_id [of "length sub" s] by simp
  then show "\<exists>post. s = sub @ post" ..
next
  assume "\<exists>post. s = sub @ post"
  then show "startswith s sub" by (auto simp: startswith_def)
qed

lemma startswith_length:
  assumes "startswith s sub"
  shows "length sub \<le> length s"
proof -
  from assms have "length (take (length sub) s) = length sub"
    by (simp only: startswith_def)
  then show ?thesis by simp
qed

text \<open>\<open>py_in\<close> is the substring test.\<close>

lemma py_in_iff: "py_in sub s \<longleftrightarrow> (\<exists>pre post. s = pre @ sub @ post)"
proof (induction s)
  case Nil
  show ?case by (auto simp: startswith_iff)
next
  case (Cons c s)
  show ?case
  proof
    assume "py_in sub (c # s)"
    then consider "startswith (c # s) sub" | "py_in sub s" by auto
    then show "\<exists>pre post. c # s = pre @ sub @ post"
    proof cases
      case 1
      then obtain post where "c # s = [] @ sub @ post" by (auto simp: startswith_iff)
      then show ?thesis by blast
    next
      case 2
      with Cons.IH obtain pre post where "s = pre @ sub @ post" by blast
      then have "c # s = (c # pre) @ sub @ post" by simp
      then show ?thesis by blast
    qed
  next
    assume "\<exists>pre post. c # s = pre @ sub @ post"
    then obtain pre post where eq: "c # s = pre @ sub @ post" by blast
    show "py_in sub (c # s)"
    proof (cases pre)
      case Nil
      with eq have "startswith (c # s) sub" by (auto simp: startswith_iff)
      then show ?thesis by simp
    next
      case (Cons d pre')
      with eq have "s = pre' @ sub @ post" by simp
      with Cons.IH have "py_in sub s" by blast
      then show ?thesis by simp
    qed
  qed
qed


lemma resume_strip: "length (py_strip ascii_only example_resume_text) = 73"
  by code_simp

lemma job_strip: "length (py_strip ascii_only example_job_text) = 70"
  by code_simp

lemma resume_not_empty: "example_resume_text \<noteq> []"
  by (simp add: example_resume_text_def cps_def)

lemma job_not_empty: "example_job_text \<noteq> []"
  by (simp add: example_job_text_def cps_def)

lemma resume_returns:
  "analyze_resume ascii_only example_resume_text =
     Inr (projr (analyze_resume ascii_only example_resume_text))"
  by (simp add: analyze_resume_def resume_not_empty resume_strip Let_def)

lemma job_returns:
  "analyze_job_description ascii_only example_job_text =
     Inr (projr (analyze_job_description ascii_only example_job_text))"
  by (simp add: analyze_job_description_def job_not_empty job_strip Let_def)

subsection \<open>Input that is too short\<close>



subsection \<open>ATS score\<close>

lemma not_ascii_iff: "(\<not> is_ascii c) = (127 < c)"
  unfolding is_ascii_def by arith

lemma has_non_ascii_iff: "has_non_ascii text \<longleftrightarrow> (\<exists>c \<in> set text. 127 < c)"
  by (simp add: has_non_ascii_def list_ex_iff not_ascii_iff)

lemma found_sections_card:
  "found_sections U text =
     card {h \<in> set [''experience'', ''education'', ''skills'', ''summary''].
             py_in (cps h) (py_lower U text)}"
proof -
  have d: "distinct (filter (\<lambda>h. py_in (cps h) (py_lower U text)) standard_sections)"
    by (rule distinct_filter) (simp add: standard_sections_def)
  have "found_sections U text =
        card (set (filter (\<lambda>h. py_in (cps h) (py_lower U text)) standard_sections))"
    unfolding found_sections_def using distinct_card [OF d] by simp
  also have "set (filter (\<lambda>h. py_in (cps h) (py_lower U text)) standard_sections) =
        {h \<in> set standard_sections. py_in (cps h) (py_lower U text)}"
    by (rule set_filter)
  finally show ?thesis by (simp only: standard_sections_def)
qed

lemma found_sections_le: "found_sections U text \<le> 4"
proof -
  have "found_sections U text \<le> length standard_sections"
    unfolding found_sections_def by (rule length_filter_le)
  then show ?thesis by (simp add: standard_sections_def)
qed

lemma section_score_eq: "section_score U text = (of_nat (found_sections U text) / 4) * 20"
  by (simp add: section_score_def standard_sections_def)

lemma section_score_bounds: "0 \<le> section_score U text" "section_score U text \<le> 20"
proof -
  show "0 \<le> section_score U text" by (simp add: section_score_eq)
  have "(of_nat (found_sections U text) :: rat) \<le> of_nat 4"
    using found_sections_le [of U "text"] by (simp only: of_nat_le_iff)
  then show "section_score U text \<le> 20" by (simp add: section_score_eq)
qed

text \<open>
  C9. The ATS score is \<open>max 0\<close> of 100 minus 10 when the text has a code point above
  U+007F, minus 15 when it has fewer than 300 words or 5 when it has more than 800, minus
  \<open>20 - (found / 4) 20\<close>, where \<open>found\<close> counts the headers experience, education, skills
  and summary that occur in the lower-cased text. It lies between 0 and 100, and it is
  the ATS score of the facts \<^verbatim>\<open>analyze_resume\<close> returns.
\<close>

theorem ats_score_formula:
  "calculate_ats_compatibility U text =
     max 0 (100 - (if (\<exists>c \<in> set text. 127 < c) then 10 else 0)
                - (if length (py_split U text) < 300 then 15
                   else if length (py_split U text) > 800 then 5 else 0)
                - (20 - (of_nat (found_sections U text) / 4) * 20)) \<and>
   found_sections U text =
     card {h \<in> set [''experience'', ''education'', ''skills'', ''summary''].
             py_in (cps h) (py_lower U text)} \<and>
   0 \<le> calculate_ats_compatibility U text \<and>
   calculate_ats_compatibility U text \<le> 100 \<and>
   (\<forall>facts. analyze_resume U text = Inr facts \<longrightarrow>
      resume_analysis.ats_compatibility_score facts = calculate_ats_compatibility U text)"
proof -
  have formula: "calculate_ats_compatibility U text =
     max 0 (100 - (if (\<exists>c \<in> set text. 127 < c) then 10 else 0)
                - (if length (py_split U text) < 300 then 15
                   else if length (py_split U text) > 800 then 5 else 0)
                - (20 - (of_nat (found_sections U text) / 4) * 20))"
    unfolding calculate_ats_compatibility_def Let_def has_non_ascii_iff section_score_eq
    by simp
  have lower: "0 \<le> calculate_ats_compatibility U text"
    by (simp add: calculate_ats_compatibility_def Let_def)
  have upper: "calculate_ats_compatibility U text \<le> 100"
    using section_score_bounds [of U "text"]
    by (simp add: calculate_ats_compatibility_def Let_def)
  have field: "\<forall>facts. analyze_resume U text = Inr facts \<longrightarrow>
      resume_analysis.ats_compatibility_score facts = calculate_ats_compatibility U text"
    by (auto simp: analyze_resume_def Let_def split: if_splits)
  from formula found_sections_card [of U "text"] lower upper field show ?thesis by blast
qed

theorem ats_score_formula_witness:
  "calculate_ats_compatibility ascii_only example_resume_text = 70 \<and>
   found_sections ascii_only example_resume_text = 1 \<and>
   length (py_split ascii_only example_resume_text) = 12 \<and>
   resume_analysis.ats_compatibility_score
     (projr (analyze_resume ascii_only example_resume_text)) = 70"
proof -
  have w: "length (py_split ascii_only example_resume_text) = 12" by code_simp
  have f: "found_sections ascii_only example_resume_text = 1" by code_simp
  have n: "\<not> (\<exists>c \<in> set example_resume_text. 127 < c)"
    unfolding has_non_ascii_iff [symmetric] by code_simp
  note inst = ats_score_formula [of ascii_only example_resume_text]
  from inst
  have "calculate_ats_compatibility ascii_only example_resume_text =
     max 0 (100 - (if (\<exists>c \<in> set example_resume_text. 127 < c) then 10 else 0)
                - (if length (py_split ascii_only example_resume_text) < 300 then 15
                   else if length (py_split ascii_only example_resume_text) > 800 then 5 else 0)
                - (20 - (of_nat (found_sections ascii_only example_resume_text) / 4) * 20))"
    by blast
  then have v: "calculate_ats_compatibility ascii_only example_resume_text = 70"
    unfolding w f using n by simp
  from inst resume_returns
  have "resume_analysis.ats_compatibility_score
     (projr (analyze_resume ascii_only example_resume_text)) =
     calculate_ats_compatibility ascii_only example_resume_text"
    by blast
  with v w f show ?thesis by simp
qed

subsection \<open>Experience extraction\<close>

text \<open>Every match of a pattern consumes at least \<open>min_width\<close> code points.\<close>

lemma rmatch_consumes:
  "(g, s') \<in> set (rmatch U r s) \<Longrightarrow> length s' + min_width r \<le> length s"
proof (induction r arbitrary: s g s')
  case Eps
  then show ?case by simp
next
  case (One cls)
  then show ?case by (cases s) (auto split: if_splits)
next
  case (Str lit)
  then show ?case by (auto split: if_splits dest: startswith_length)
next
  case (Seq r1 r2)
  from Seq.prems obtain g1 s1 g2 where
    m1: "(g1, s1) \<in> set (rmatch U r1 s)" and m2: "(g2, s') \<in> set (rmatch U r2 s1)"
    by auto
  from Seq.IH(1) [OF m1] Seq.IH(2) [OF m2] show ?case by simp
next
  case (Alt r1 r2)
  from Alt.prems have "(g, s') \<in> set (rmatch U r1 s) \<or> (g, s') \<in> set (rmatch U r2 s)"
    by simp
  then show ?case using Alt.IH by fastforce
next
  case (Opt r)
  from Opt.prems have "(g, s') \<in> set (rmatch U r s) \<or> s' = s" by auto
  then show ?case using Opt.IH by fastforce
next
  case (Star cls)
  from Star.prems obtain k where "s' = drop k s"
    unfolding rmatch.simps by (auto simp del: upt_Suc)
  then show ?case by simp
next
  case (Plus cls)
  from Plus.prems obtain k where k: "1 \<le> k" "k \<le> length (takeWhile (in_class U cls) s)"
    and s': "s' = drop k s"
    unfolding rmatch.simps by (auto simp del: upt_Suc)
  have "length (takeWhile (in_class U cls) s) \<le> length s" by (rule length_takeWhile_le)
  with k s' show ?case by simp
next
  case (Group r)
  from Group.prems obtain g0 where "(g0, s') \<in> set (rmatch U r s)" by auto
  from Group.IH [OF this] show ?case by simp
qed

lemma patterns_min_width:
  "\<forall>p \<in> set (experience_patterns @ required_experience_patterns). 0 < min_width p"
  by (simp add: experience_patterns_def required_experience_patterns_def seq_def chars_def
      cps_def digits_def opt_plus_def spaces_def years_re_def experience_re_def)

text \<open>No experience pattern matches the empty string.\<close>

lemma findall_patterns_consume:
  assumes "p \<in> set (experience_patterns @ required_experience_patterns)"
    and "(g, s') \<in> set (rmatch U p s)"
  shows "length s' < length s"
  using rmatch_consumes [OF assms(2)] patterns_min_width assms(1) by fastforce

lemma py_max_Max: "ys \<noteq> [] \<Longrightarrow> py_max ys = Max (set ys)"
proof (cases ys)
  case Nil
  assume "ys \<noteq> []"
  with Nil show ?thesis by simp
next
  case (Cons y rest)
  show ?thesis unfolding Cons py_max.simps by (rule Max.set_eq_fold [symmetric])
qed

lemma py_min_Min: "ys \<noteq> [] \<Longrightarrow> py_min ys = Min (set ys)"
proof (cases ys)
  case Nil
  assume "ys \<noteq> []"
  with Nil show ?thesis by simp
next
  case (Cons y rest)
  show ?thesis unfolding Cons py_min.simps by (rule Min.set_eq_fold [symmetric])
qed

lemma analyze_experience_years:
  "fst (analyze_experience U text) =
     (let years = captured_years U experience_patterns text
      in if years = [] then 0 else Max (set years))"
  by (simp add: analyze_experience_def Let_def py_max_Max)

lemma extract_required_experience_years:
  "extract_required_experience U text =
     (let years = captured_years U required_experience_patterns text
      in if years = [] then 0 else Min (set years))"
  by (simp add: extract_required_experience_def Let_def py_min_Min)

lemma job_captures:
  "captured_years ascii_only required_experience_patterns (py_lower ascii_only example_job_text)
     = [5, 3, 5]"
  by code_simp

lemma resume_captures:
  "captured_years ascii_only experience_patterns (py_lower ascii_only example_resume_text)
     = [6, 6]"
  by code_simp

lemma job_required:
  "map_sum id experience_required (analyze_job_description ascii_only example_job_text) = Inr 3"
  by (simp add: analyze_job_description_def job_not_empty job_strip Let_def
      extract_required_experience_def job_captures)

text \<open>
  C2. The experience years of a resume are the maximum of the integers captured by the
  six experience patterns in the lower-cased text, and 0 when none matches. The required
  experience of a job is the minimum of the integers captured by the four patterns of
  \<^verbatim>\<open>_extract_required_experience\<close> in the lower-cased text, and 0 when none matches.
\<close>

theorem experience_years_extracted:
  "(\<forall>facts. analyze_resume U text = Inr facts \<longrightarrow>
      experience_years facts =
        (let years = captured_years U experience_patterns (py_lower U text)
         in if years = [] then 0 else Max (set years))) \<and>
   (\<forall>facts. analyze_job_description U text = Inr facts \<longrightarrow>
      experience_required facts =
        (let years = captured_years U required_experience_patterns (py_lower U text)
         in if years = [] then 0 else Min (set years)))"
proof -
  have resume: "\<forall>facts. analyze_resume U text = Inr facts \<longrightarrow>
      experience_years facts = fst (analyze_experience U (py_lower U text))"
    by (auto simp: analyze_resume_def Let_def split: if_splits)
  have job: "\<forall>facts. analyze_job_description U text = Inr facts \<longrightarrow>
      experience_required facts = extract_required_experience U (py_lower U text)"
    by (auto simp: analyze_job_description_def Let_def split: if_splits)
  from resume job show ?thesis
    unfolding analyze_experience_years extract_required_experience_years by blast
qed

theorem experience_years_extracted_witness:
  "experience_years (projr (analyze_resume ascii_only example_resume_text)) = 6 \<and>
   experience_required (projr (analyze_job_description ascii_only example_job_text)) = 3"
  using experience_years_extracted [of ascii_only example_resume_text] resume_returns
    experience_years_extracted [of ascii_only example_job_text] job_returns
  by (simp add: resume_captures job_captures)

text \<open>
  A job description that asks for 3 to 5 years of experience: the captures are 5, 3 and
  5, whose maximum is 5, and the required experience is 3.
\<close>

theorem required_experience_minimum_counterexample:
  "map_sum id experience_required (analyze_job_description ascii_only example_job_text) = Inr 3 \<and>
   captured_years ascii_only required_experience_patterns
     (py_lower ascii_only example_job_text) = [5, 3, 5] \<and>
   Max (set [5, 3, 5 :: int]) = 5"
  using job_required job_captures by simp

subsection \<open>Skill detection\<close>

lemma first_cp_append: "w \<noteq> [] \<Longrightarrow> first_cp (w @ post) = Some (hd w)"
  by (cases w) (simp_all add: first_cp_def)

lemma not_word_first: "(\<not> is_word_opt U (first_cp post)) = (post = [] \<or> \<not> is_word U (hd post))"
  by (cases post) (simp_all add: first_cp_def is_word_opt_def)

lemma bounded_match_at_iff:
  assumes "w \<noteq> []" "is_word U (hd w)" "is_word U (last w)"
  shows "bounded_match_at U prev w s \<longleftrightarrow>
     (\<not> is_word_opt U prev \<and> (\<exists>post. s = w @ post \<and> (post = [] \<or> \<not> is_word U (hd post))))"
proof
  assume m: "bounded_match_at U prev w s"
  then obtain post where s: "s = w @ post"
    unfolding bounded_match_at_def startswith_iff by blast
  from m assms s have "\<not> is_word_opt U prev"
    by (simp add: bounded_match_at_def at_boundary_def first_cp_append is_word_opt_def)
  moreover from m assms s have "\<not> is_word_opt U (first_cp post)"
    by (simp add: bounded_match_at_def at_boundary_def is_word_opt_def)
  ultimately show "\<not> is_word_opt U prev \<and>
      (\<exists>post. s = w @ post \<and> (post = [] \<or> \<not> is_word U (hd post)))"
    using s not_word_first by blast
next
  assume "\<not> is_word_opt U prev \<and>
      (\<exists>post. s = w @ post \<and> (post = [] \<or> \<not> is_word U (hd post)))"
  then obtain post where p: "\<not> is_word_opt U prev" and s: "s = w @ post"
    and e: "post = [] \<or> \<not> is_word U (hd post)" by blast
  from e have "\<not> is_word_opt U (first_cp post)" by (simp only: not_word_first)
  with p s assms show "bounded_match_at U prev w s"
    by (simp add: bounded_match_at_def at_boundary_def first_cp_append is_word_opt_def
        startswith_def)
qed

lemma bounded_search_from_iff:
  assumes "w \<noteq> []" "is_word U (hd w)" "is_word U (last w)"
  shows "bounded_search_from U prev w s \<longleftrightarrow>
     (\<exists>pre post. s = pre @ w @ post \<and>
        \<not> is_word_opt U (if pre = [] then prev else Some (last pre)) \<and>
        (post = [] \<or> \<not> is_word U (hd post)))"
proof (induction s arbitrary: prev)
  case Nil
  from assms(1) show ?case
    by (simp add: bounded_match_at_iff [OF assms])
next
  case (Cons c s)
  show ?case
  proof
    assume "bounded_search_from U prev w (c # s)"
    then consider (here) "bounded_match_at U prev w (c # s)"
      | (later) "bounded_search_from U (Some c) w s" by auto
    then show "\<exists>pre post. c # s = pre @ w @ post \<and>
        \<not> is_word_opt U (if pre = [] then prev else Some (last pre)) \<and>
        (post = [] \<or> \<not> is_word U (hd post))"
    proof cases
      case here
      then obtain post where "\<not> is_word_opt U prev" "c # s = w @ post"
        "post = [] \<or> \<not> is_word U (hd post)"
        unfolding bounded_match_at_iff [OF assms] by blast
      then have "c # s = [] @ w @ post \<and>
        \<not> is_word_opt U (if ([]::pystr) = [] then prev else Some (last [])) \<and>
        (post = [] \<or> \<not> is_word U (hd post))" by simp
      then show ?thesis by blast
    next
      case later
      then obtain pre post where s: "s = pre @ w @ post"
        and b: "\<not> is_word_opt U (if pre = [] then Some c else Some (last pre))"
        and e: "post = [] \<or> \<not> is_word U (hd post)"
        unfolding Cons.IH by blast
      from s have "c # s = (c # pre) @ w @ post" by simp
      moreover from b have
        "\<not> is_word_opt U (if c # pre = [] then prev else Some (last (c # pre)))"
        by (cases "pre = []") simp_all
      ultimately show ?thesis using e by blast
    qed
  next
    assume "\<exists>pre post. c # s = pre @ w @ post \<and>
        \<not> is_word_opt U (if pre = [] then prev else Some (last pre)) \<and>
        (post = [] \<or> \<not> is_word U (hd post))"
    then obtain pre post where s: "c # s = pre @ w @ post"
      and b: "\<not> is_word_opt U (if pre = [] then prev else Some (last pre))"
      and e: "post = [] \<or> \<not> is_word U (hd post)" by blast
    show "bounded_search_from U prev w (c # s)"
    proof (cases pre)
      case Nil
      with s b e have "bounded_match_at U prev w (c # s)"
        unfolding bounded_match_at_iff [OF assms] by auto
      then show ?thesis by simp
    next
      case (Cons d pre')
      with s have c: "d = c" and s': "s = pre' @ w @ post" by simp_all
      from b Cons c have "\<not> is_word_opt U (if pre' = [] then Some c else Some (last pre'))"
        by (cases "pre' = []") simp_all
      with s' e have "bounded_search_from U (Some c) w s"
        unfolding Cons.IH by blast
      then show ?thesis by simp
    qed
  qed
qed

lemma bounded_search_standalone:
  assumes "w \<noteq> []" "is_word U (hd w)" "is_word U (last w)"
  shows "bounded_search U w text = standalone U w text"
proof -
  have "(\<not> is_word_opt U (if pre = [] then None else Some (last pre))) =
        (pre = [] \<or> \<not> is_word U (last pre))" for pre :: pystr
    by (simp add: is_word_opt_def)
  then show ?thesis
    unfolding bounded_search_def bounded_search_from_iff [OF assms] standalone_def
    by simp
qed


lemma set_fromkeys: "set (fromkeys xs) = set xs"
  by (induction xs rule: fromkeys.induct) auto

lemma technical_skills_filter:
  "technical_skills (analyze_skills U text) = filter (skill_found U text) all_technical_skills"
  "soft_skills (analyze_skills U text) = filter (skill_found U text) soft_skills_catalog"
  by (simp_all add: analyze_skills_def)

lemma raw_word_ended:
  "list_all (\<lambda>skill. skill \<in> set [''c++'', ''c#'', ''f#''] \<or> word_ended skill)
     ((programming_languages @ frameworks_libraries @ databases @ cloud_devops @
         tools_technologies @ methodologies) @
        concat (map snd industry_skills))"
  by code_simp

lemma soft_word_ended: "list_all word_ended soft_skills_catalog"
  by code_simp

text \<open>
  For every skill of the catalog but \<^verbatim>\<open>c++\<close>, \<^verbatim>\<open>c#\<close> and \<^verbatim>\<open>f#\<close>, the skill is detected
  exactly when it occurs in the text as a standalone word.
\<close>

lemma is_word_ascii: "is_ascii c \<Longrightarrow> is_word ascii_only c \<Longrightarrow> is_word U c"
  by (simp add: is_word_def)

lemma word_ended_props:
  assumes "word_ended skill"
  shows "cps skill \<noteq> []" "is_word U (hd (cps skill))" "is_word U (last (cps skill))"
    "py_lower U (cps skill) = cps skill"
proof -
  from assms have ne: "cps skill \<noteq> []" and h: "is_word ascii_only (hd (cps skill))"
    and l: "is_word ascii_only (last (cps skill))" and a: "list_all is_ascii (cps skill)"
    and low: "map ascii_lower (cps skill) = cps skill"
    by (simp_all add: word_ended_def Let_def)
  from a have all: "\<forall>c \<in> set (cps skill). is_ascii c"
    by (simp only: list_all_iff)
  from ne have "hd (cps skill) \<in> set (cps skill)" "last (cps skill) \<in> set (cps skill)"
    by (rule hd_in_set, rule last_in_set)
  with all have "is_ascii (hd (cps skill))" "is_ascii (last (cps skill))"
    by blast+
  with h l show "is_word U (hd (cps skill))" "is_word U (last (cps skill))"
    by (blast intro: is_word_ascii)+
  from ne show "cps skill \<noteq> []" .
  from a low show "py_lower U (cps skill) = cps skill"
    by (simp add: py_lower_def)
qed

lemma skill_found_standalone:
  assumes "word_ended skill"
  shows "skill_found U text skill = standalone U (cps skill) text"
  unfolding skill_found_def word_ended_props(4) [OF assms]
  by (rule bounded_search_standalone [OF word_ended_props(1-3) [OF assms]])

lemma technical_word_ended:
  assumes "skill \<in> set all_technical_skills" "skill \<notin> set [''c++'', ''c#'', ''f#'']"
  shows "word_ended skill"
proof -
  from assms(1) have "skill \<in> set ((programming_languages @ frameworks_libraries @ databases @
      cloud_devops @ tools_technologies @ methodologies) @ concat (map snd industry_skills))"
    by (simp only: all_technical_skills_def set_fromkeys)
  with raw_word_ended have "skill \<in> set [''c++'', ''c#'', ''f#''] \<or> word_ended skill"
    by (simp only: list_all_iff)
  with assms(2) show ?thesis by blast
qed

lemma soft_skill_word_ended: "skill \<in> set soft_skills_catalog \<Longrightarrow> word_ended skill"
  using soft_word_ended by (simp only: list_all_iff)

lemma skill_detection_standalone:
  "skill \<in> set all_technical_skills \<Longrightarrow> skill \<notin> set [''c++'', ''c#'', ''f#''] \<Longrightarrow>
     skill \<in> set (technical_skills (analyze_skills U text)) \<longleftrightarrow>
       standalone U (cps skill) text"
  "skill \<in> set soft_skills_catalog \<Longrightarrow>
     skill \<in> set (soft_skills (analyze_skills U text)) \<longleftrightarrow> standalone U (cps skill) text"
  by (simp_all add: technical_skills_filter skill_found_standalone technical_word_ended
      soft_skill_word_ended)

lemma analyze_resume_skills:
  "analyze_resume U text = Inr facts \<Longrightarrow>
     technical_skills facts = technical_skills (analyze_skills U (py_lower U text)) \<and>
     soft_skills facts = soft_skills (analyze_skills U (py_lower U text))"
  by (auto simp: analyze_resume_def Let_def split: if_splits)

lemma analyze_job_skills:
  "analyze_job_description U text = Inr facts \<Longrightarrow>
     technical_skills facts = technical_skills (analyze_skills U (py_lower U text)) \<and>
     soft_skills facts = soft_skills (analyze_skills U (py_lower U text))"
  by (auto simp: analyze_job_description_def Let_def split: if_splits)

text \<open>A skill that ends in a non-word character is found only directly before a word character.\<close>

lemma bounded_match_at_non_word_end:
  assumes "w \<noteq> []" "\<not> is_word U (last w)" "bounded_match_at U prev w s"
  shows "\<exists>post. s = w @ post \<and> post \<noteq> [] \<and> is_word U (hd post)"
proof -
  from assms(3) obtain post where s: "s = w @ post"
    unfolding bounded_match_at_def startswith_iff by blast
  from assms s have "is_word_opt U (first_cp post)"
    by (simp add: bounded_match_at_def at_boundary_def is_word_opt_def)
  then have "post \<noteq> [] \<and> is_word U (hd post)"
    by (cases post) (simp_all add: first_cp_def is_word_opt_def)
  with s show ?thesis by blast
qed

lemma bounded_search_from_non_word_end:
  assumes "w \<noteq> []" "\<not> is_word U (last w)" "bounded_search_from U prev w s"
  shows "\<exists>pre post. s = pre @ w @ post \<and> post \<noteq> [] \<and> is_word U (hd post)"
  using assms(3)
proof (induction s arbitrary: prev)
  case Nil
  then have "bounded_match_at U prev w []" by simp
  from bounded_match_at_non_word_end [OF assms(1,2) this] show ?case by simp
next
  case (Cons c s)
  then consider (here) "bounded_match_at U prev w (c # s)"
    | (later) "bounded_search_from U (Some c) w s" by auto
  then show ?case
  proof cases
    case here
    from bounded_match_at_non_word_end [OF assms(1,2) this]
    obtain post where "c # s = [] @ w @ post \<and> post \<noteq> [] \<and> is_word U (hd post)" by auto
    then show ?thesis by blast
  next
    case later
    from Cons.IH [OF this] obtain pre post where
      "s = pre @ w @ post" "post \<noteq> []" "is_word U (hd post)" by blast
    then have "c # s = (c # pre) @ w @ post \<and> post \<noteq> [] \<and> is_word U (hd post)" by simp
    then show ?thesis by blast
  qed
qed

lemma lower_resume:
  "py_lower ascii_only example_resume_text =
     cps ''  senior engineer with 6 years of experience in '' @ cps ''c++'' @
     cps '' and python development.  ''"
  by code_simp

lemma cpp_not_found:
  "\<not> skill_found ascii_only (py_lower ascii_only example_resume_text) ''c++''"
  by code_simp

lemma python_found:
  "skill_found ascii_only (py_lower ascii_only example_resume_text) ''python''"
  by code_simp

lemma cpp_in_catalog: "''c++'' \<in> set all_technical_skills"
  unfolding all_technical_skills_def set_fromkeys
  by (simp add: programming_languages_def)

lemma python_in_catalog: "''python'' \<in> set all_technical_skills"
  unfolding all_technical_skills_def set_fromkeys
  by (simp add: programming_languages_def)

text \<open>
  C1. A skill of the catalog that stands in the text as a whole word is meant to be
  detected. The resume text below contains \<^verbatim>\<open>C++\<close> between two blanks, and \<^verbatim>\<open>c++\<close> is
  a skill of the catalog; \<^verbatim>\<open>analyze_resume\<close> returns facts whose technical skills contain
  python and do not contain \<^verbatim>\<open>c++\<close>.
\<close>

theorem cpp_standalone_not_detected:
  "py_lower ascii_only example_resume_text =
     cps ''  senior engineer with 6 years of experience in '' @ cps ''c++'' @
     cps '' and python development.  '' \<and>
   ''c++'' \<in> set all_technical_skills \<and>
   analyze_resume ascii_only example_resume_text =
     Inr (projr (analyze_resume ascii_only example_resume_text)) \<and>
   ''c++'' \<notin> set (technical_skills (projr (analyze_resume ascii_only example_resume_text))) \<and>
   ''python'' \<in> set (technical_skills (projr (analyze_resume ascii_only example_resume_text)))"
proof -
  have t: "technical_skills (projr (analyze_resume ascii_only example_resume_text)) =
     filter (skill_found ascii_only (py_lower ascii_only example_resume_text))
       all_technical_skills"
    using analyze_resume_skills [OF resume_returns] by (simp add: technical_skills_filter)
  have "''c++'' \<notin> set (technical_skills (projr (analyze_resume ascii_only example_resume_text)))"
    unfolding t using cpp_not_found by simp
  moreover have
    "''python'' \<in> set (technical_skills (projr (analyze_resume ascii_only example_resume_text)))"
    unfolding t using python_found python_in_catalog by simp
  ultimately show ?thesis
    using lower_resume cpp_in_catalog resume_returns by blast
qed

end
